theory Spec2Isabelle
  imports Main "HOL-Library.Extended_Nat" "HOL-Library.Multiset"
begin

section \<open>Values on the wire and in the tables\<close>

text \<open>
  Identifiers are the UUID strings of the tables, timestamps and dates are points on a
  discrete time line. A JavaScript \<^verbatim>\<open>number\<close> is modelled by its exact value; \<open>None\<close>
  stands for \<^verbatim>\<open>NaN\<close> (what \<^verbatim>\<open>parseFloat\<close> gives for a text that is no number, the empty
  text of a cleared form field included), which the client serialises as \<^verbatim>\<open>null\<close>.
  The rounding of binary floating point is not part of the model, and neither is the
  syntax of a UUID: an identifier that no row carries is refused wherever a row must exist.
\<close>

type_synonym uuid = string
type_synonym timestamp = nat
type_synonym date = nat
type_synonym number = "rat option"

text \<open>
  The text of a date input, read as the store reads it: \<open>Some d\<close> for a date, \<open>None\<close> for a
  text that is no date (the empty text of a cleared field included).
\<close>

type_synonym date_text = "date option"

text \<open>
  A key of an insert payload is missing (\<^verbatim>\<open>undefined\<close> is dropped by the serialiser),
  \<^verbatim>\<open>null\<close>, or carries a value.
\<close>

datatype 'a field = Absent | Null | Value 'a

datatype store_error =
    FailedToFetch
  | NotNullViolation string
  | CheckViolation string
  | ForeignKeyViolation string
  | UniqueViolation string
  | NumericFieldOverflow string
  | InvalidInputSyntax string

definition and_then :: "'e + 'a \<Rightarrow> ('a \<Rightarrow> 'e + 'b) \<Rightarrow> 'e + 'b" where
  "and_then m f = (case m of Inl e \<Rightarrow> Inl e | Inr v \<Rightarrow> f v)"

text \<open>\<^verbatim>\<open>col TYPE NOT NULL\<close>: a missing key or a \<^verbatim>\<open>null\<close> is refused.\<close>

definition not_null :: "string \<Rightarrow> 'a field \<Rightarrow> store_error + 'a" where
  "not_null col f = (case f of Value v \<Rightarrow> Inr v | _ \<Rightarrow> Inl (NotNullViolation col))"

text \<open>\<^verbatim>\<open>col TYPE NOT NULL DEFAULT d\<close>: the default fills a missing key only.\<close>

definition not_null_default :: "string \<Rightarrow> 'a \<Rightarrow> 'a field \<Rightarrow> store_error + 'a" where
  "not_null_default col d f =
     (case f of Absent \<Rightarrow> Inr d | Null \<Rightarrow> Inl (NotNullViolation col) | Value v \<Rightarrow> Inr v)"

text \<open>\<^verbatim>\<open>col TYPE DEFAULT d\<close>, nullable.\<close>

definition nullable_default :: "'a \<Rightarrow> 'a field \<Rightarrow> 'a option" where
  "nullable_default d f = (case f of Absent \<Rightarrow> Some d | Null \<Rightarrow> None | Value v \<Rightarrow> Some v)"

text \<open>\<^verbatim>\<open>col TYPE\<close>, nullable, no default.\<close>

definition nullable :: "'a field \<Rightarrow> 'a option" where
  "nullable f = (case f of Value v \<Rightarrow> Some v | _ \<Rightarrow> None)"

text \<open>\<^verbatim>\<open>CHECK (col IN (...))\<close>: satisfied by \<^verbatim>\<open>NULL\<close> and by the listed values.\<close>

definition check_in :: "string \<Rightarrow> string list \<Rightarrow> string option \<Rightarrow> store_error + string option" where
  "check_in col allowed v =
     (case v of
        None \<Rightarrow> Inr None
      | Some x \<Rightarrow> if x \<in> set allowed then Inr (Some x) else Inl (CheckViolation col))"

subsection \<open>\<^verbatim>\<open>DECIMAL(10,2)\<close>\<close>

text \<open>
  A value stored in a \<^verbatim>\<open>DECIMAL(10,2)\<close> column is rounded to two fractional digits, ties
  away from zero, and refused when the rounded value needs more than eight digits before
  the point.
\<close>

definition round_half_away :: "rat \<Rightarrow> int" where
  "round_half_away q = (if 0 \<le> q then \<lfloor>q + 1 / 2\<rfloor> else - \<lfloor>- q + 1 / 2\<rfloor>)"

definition round2 :: "rat \<Rightarrow> rat" where
  "round2 q = of_int (round_half_away (q * 100)) / 100"

definition decimal_10_2 :: "string \<Rightarrow> rat \<Rightarrow> store_error + rat" where
  "decimal_10_2 col q =
     (let v = round2 q in if \<bar>v\<bar> < 10 ^ 8 then Inr v else Inl (NumericFieldOverflow col))"

section \<open>The tables\<close>

record profile =
  id :: uuid
  user_id :: uuid
  full_name :: string
  phone_number :: "string option"
  address :: "string option"
  meter_number :: "string option"
  is_admin :: "bool option"
  created_at :: "timestamp option"
  updated_at :: "timestamp option"

record bill =
  id :: uuid
  customer_id :: uuid
  meter_number :: string
  previous_reading :: rat
  current_reading :: rat
  units_consumed :: rat
  rate_per_unit :: rat
  amount :: rat
  bill_month :: string
  due_date :: date
  status :: "string option"
  created_at :: "timestamp option"
  updated_at :: "timestamp option"

record payment =
  id :: uuid
  bill_id :: uuid
  customer_id :: uuid
  amount :: rat
  payment_method :: string
  transaction_id :: "string option"
  payment_date :: "timestamp option"
  status :: "string option"
  created_at :: "timestamp option"

record complaint =
  id :: uuid
  customer_id :: uuid
  subject :: string
  description :: string
  status :: "string option"
  priority :: "string option"
  admin_response :: "string option"
  created_at :: "timestamp option"
  updated_at :: "timestamp option"

record store =
  profiles :: "profile list"
  bills :: "bill list"
  payments :: "payment list"
  complaints :: "complaint list"

text \<open>
  What a request meets outside the tables: the time \<^verbatim>\<open>NOW()\<close>, the identifier
  \<^verbatim>\<open>gen_random_uuid()\<close> draws, and whether the request reaches the tables at all (the
  network delivers it and the store lets the caller through; the row-level security
  policies themselves are not modelled). A request that does not reach them comes back
  with an error and changes nothing.
\<close>

record env =
  now :: timestamp
  gen_random_uuid :: uuid
  reachable :: bool

subsection \<open>\<^verbatim>\<open>public.bills\<close>\<close>

record bills_Insert =
  customer_id :: "uuid field"
  meter_number :: "string field"
  previous_reading :: "rat field"
  current_reading :: "rat field"
  rate_per_unit :: "rat field"
  bill_month :: "string field"
  due_date :: "date_text field"
  status :: "string field"

record payments_Insert =
  bill_id :: "uuid field"
  customer_id :: "uuid field"
  amount :: "rat field"
  payment_method :: "string field"
  transaction_id :: "string field"
  payment_date :: "timestamp field"
  status :: "string field"

record complaints_Insert =
  customer_id :: "uuid field"
  subject :: "string field"
  description :: "string field"
  status :: "string field"
  priority :: "string field"
  admin_response :: "string field"

definition primary_key :: "string \<Rightarrow> uuid list \<Rightarrow> uuid \<Rightarrow> store_error + uuid" where
  "primary_key tbl ids i = (if i \<in> set ids then Inl (UniqueViolation tbl) else Inr i)"

text \<open>A \<^verbatim>\<open>DATE\<close> column refuses a text that is no date.\<close>

definition date_in :: "string \<Rightarrow> date_text \<Rightarrow> store_error + date" where
  "date_in col d = (case d of None \<Rightarrow> Inl (InvalidInputSyntax col) | Some v \<Rightarrow> Inr v)"

definition references :: "string \<Rightarrow> uuid list \<Rightarrow> uuid \<Rightarrow> store_error + uuid" where
  "references col ids i = (if i \<in> set ids then Inr i else Inl (ForeignKeyViolation col))"

text \<open>
  The row the table builds from an insert payload: column defaults, the two
  \<^verbatim>\<open>GENERATED ALWAYS AS (...) STORED\<close> columns, and every constraint of the table.
\<close>

definition bills_new_row :: "env \<Rightarrow> bills_Insert \<Rightarrow> store \<Rightarrow> store_error + bill" where
  "bills_new_row e ins s =
     and_then (primary_key ''bills'' (map bill.id (bills s)) (gen_random_uuid e)) (\<lambda>i.
     and_then (not_null ''customer_id'' (bills_Insert.customer_id ins)) (\<lambda>cid.
     and_then (references ''customer_id'' (map profile.id (profiles s)) cid) (\<lambda>cust.
     and_then (not_null ''meter_number'' (bills_Insert.meter_number ins)) (\<lambda>meter.
     and_then (not_null_default ''previous_reading'' 0 (bills_Insert.previous_reading ins)) (\<lambda>p0.
     and_then (decimal_10_2 ''previous_reading'' p0) (\<lambda>p.
     and_then (not_null ''current_reading'' (bills_Insert.current_reading ins)) (\<lambda>c0.
     and_then (decimal_10_2 ''current_reading'' c0) (\<lambda>c.
     and_then (not_null_default ''rate_per_unit'' 50 (bills_Insert.rate_per_unit ins)) (\<lambda>r0.
     and_then (decimal_10_2 ''rate_per_unit'' r0) (\<lambda>r.
     and_then (decimal_10_2 ''units_consumed'' (c - p)) (\<lambda>units.
     and_then (decimal_10_2 ''amount'' ((c - p) * r)) (\<lambda>amt.
     and_then (not_null ''bill_month'' (bills_Insert.bill_month ins)) (\<lambda>month.
     and_then (not_null ''due_date'' (bills_Insert.due_date ins)) (\<lambda>due0.
     and_then (date_in ''due_date'' due0) (\<lambda>due.
     and_then (check_in ''status'' [''pending'', ''paid'', ''overdue'']
                 (nullable_default ''pending'' (bills_Insert.status ins))) (\<lambda>st.
       Inr \<lparr> bill.id = i, customer_id = cust, meter_number = meter,
             previous_reading = p, current_reading = c, units_consumed = units,
             rate_per_unit = r, amount = amt, bill_month = month, due_date = due,
             status = st, created_at = Some (now e), updated_at = Some (now e) \<rparr>
     ))))))))))))))))"

definition bills_insert :: "env \<Rightarrow> bills_Insert \<Rightarrow> store \<Rightarrow> store_error option \<times> store" where
  "bills_insert e ins s =
     (if \<not> reachable e then (Some FailedToFetch, s)
      else case bills_new_row e ins s of
             Inl err \<Rightarrow> (Some err, s)
           | Inr b \<Rightarrow> (None, s\<lparr>bills := bills s @ [b]\<rparr>))"

text \<open>
  \<^verbatim>\<open>update_bills_updated_at BEFORE UPDATE ON public.bills\<close>: every updated row gets
  \<^verbatim>\<open>updated_at = NOW()\<close>.
\<close>

definition bills_update_updated_at :: "env \<Rightarrow> bill \<Rightarrow> bill" where
  "bills_update_updated_at e b = b\<lparr>bill.updated_at := Some (now e)\<rparr>"

text \<open>
  \<^verbatim>\<open>.from('bills').update({ status }).eq('id', bid)\<close>. The readings and the rate of an
  updated row are untouched, so its generated columns keep their values.
\<close>

definition bills_update_status ::
  "env \<Rightarrow> string \<Rightarrow> uuid \<Rightarrow> store \<Rightarrow> store_error option \<times> store" where
  "bills_update_status e st bid s =
     (if \<not> reachable e then (Some FailedToFetch, s)
      else if bid \<in> set (map bill.id (bills s)) \<and> st \<notin> set [''pending'', ''paid'', ''overdue'']
      then (Some (CheckViolation ''status''), s)
      else (None, s\<lparr>bills :=
              map (\<lambda>b. if bill.id b = bid
                        then bills_update_updated_at e (b\<lparr>bill.status := Some st\<rparr>)
                        else b) (bills s)\<rparr>))"

subsection \<open>\<^verbatim>\<open>public.payments\<close>\<close>

definition payments_new_row :: "env \<Rightarrow> payments_Insert \<Rightarrow> store \<Rightarrow> store_error + payment" where
  "payments_new_row e ins s =
     and_then (primary_key ''payments'' (map payment.id (payments s)) (gen_random_uuid e)) (\<lambda>i.
     and_then (not_null ''bill_id'' (payments_Insert.bill_id ins)) (\<lambda>bid.
     and_then (references ''bill_id'' (map bill.id (bills s)) bid) (\<lambda>b.
     and_then (not_null ''customer_id'' (payments_Insert.customer_id ins)) (\<lambda>cid.
     and_then (references ''customer_id'' (map profile.id (profiles s)) cid) (\<lambda>cust.
     and_then (not_null ''amount'' (payments_Insert.amount ins)) (\<lambda>a0.
     and_then (decimal_10_2 ''amount'' a0) (\<lambda>amt.
     and_then (not_null ''payment_method'' (payments_Insert.payment_method ins)) (\<lambda>m0.
     and_then (check_in ''payment_method'' [''mpesa'', ''bank_transfer'', ''cash''] (Some m0)) (\<lambda>_.
     and_then (check_in ''status'' [''pending'', ''completed'', ''failed'']
                 (nullable_default ''completed'' (payments_Insert.status ins))) (\<lambda>st.
       Inr \<lparr> payment.id = i, bill_id = b, customer_id = cust, amount = amt,
             payment_method = m0,
             transaction_id = nullable (payments_Insert.transaction_id ins),
             payment_date = nullable_default (now e) (payments_Insert.payment_date ins),
             status = st, created_at = Some (now e) \<rparr>
     ))))))))))"

definition payments_insert ::
  "env \<Rightarrow> payments_Insert \<Rightarrow> store \<Rightarrow> store_error option \<times> store" where
  "payments_insert e ins s =
     (if \<not> reachable e then (Some FailedToFetch, s)
      else case payments_new_row e ins s of
             Inl err \<Rightarrow> (Some err, s)
           | Inr p \<Rightarrow> (None, s\<lparr>payments := payments s @ [p]\<rparr>))"

subsection \<open>\<^verbatim>\<open>public.complaints\<close>\<close>

definition complaints_new_row ::
  "env \<Rightarrow> complaints_Insert \<Rightarrow> store \<Rightarrow> store_error + complaint" where
  "complaints_new_row e ins s =
     and_then (primary_key ''complaints'' (map complaint.id (complaints s)) (gen_random_uuid e)) (\<lambda>i.
     and_then (not_null ''customer_id'' (complaints_Insert.customer_id ins)) (\<lambda>cid.
     and_then (references ''customer_id'' (map profile.id (profiles s)) cid) (\<lambda>cust.
     and_then (not_null ''subject'' (complaints_Insert.subject ins)) (\<lambda>subj.
     and_then (not_null ''description'' (complaints_Insert.description ins)) (\<lambda>descr.
     and_then (check_in ''status'' [''open'', ''in_progress'', ''resolved'', ''closed'']
                 (nullable_default ''open'' (complaints_Insert.status ins))) (\<lambda>st.
     and_then (check_in ''priority'' [''low'', ''medium'', ''high'', ''urgent'']
                 (nullable_default ''medium'' (complaints_Insert.priority ins))) (\<lambda>prio.
       Inr \<lparr> complaint.id = i, customer_id = cust, subject = subj, description = descr,
             status = st, priority = prio,
             admin_response = nullable (complaints_Insert.admin_response ins),
             created_at = Some (now e), updated_at = Some (now e) \<rparr>
     )))))))"

definition complaints_insert ::
  "env \<Rightarrow> complaints_Insert \<Rightarrow> store \<Rightarrow> store_error option \<times> store" where
  "complaints_insert e ins s =
     (if \<not> reachable e then (Some FailedToFetch, s)
      else case complaints_new_row e ins s of
             Inl err \<Rightarrow> (Some err, s)
           | Inr c \<Rightarrow> (None, s\<lparr>complaints := complaints s @ [c]\<rparr>))"

text \<open>\<^verbatim>\<open>update_complaints_updated_at BEFORE UPDATE ON public.complaints\<close>.\<close>

definition complaints_update_updated_at :: "env \<Rightarrow> complaint \<Rightarrow> complaint" where
  "complaints_update_updated_at e c = c\<lparr>complaint.updated_at := Some (now e)\<rparr>"

text \<open>\<^verbatim>\<open>.from('complaints').update({ status, admin_response }).eq('id', cid)\<close>.\<close>

definition complaints_update_status ::
  "env \<Rightarrow> string \<Rightarrow> string \<Rightarrow> uuid \<Rightarrow> store \<Rightarrow> store_error option \<times> store" where
  "complaints_update_status e st resp cid s =
     (if \<not> reachable e then (Some FailedToFetch, s)
      else if cid \<in> set (map complaint.id (complaints s))
              \<and> st \<notin> set [''open'', ''in_progress'', ''resolved'', ''closed'']
      then (Some (CheckViolation ''status''), s)
      else (None, s\<lparr>complaints :=
              map (\<lambda>c. if complaint.id c = cid
                        then complaints_update_updated_at e
                               (c\<lparr>complaint.status := Some st, complaint.admin_response := Some resp\<rparr>)
                        else c) (complaints s)\<rparr>))"

subsection \<open>Reads\<close>





text \<open>
  The answer the operations below work with: latest first, rows with equal timestamps in
  the order of their insertion.
\<close>

definition nulls_largest :: "timestamp option \<Rightarrow> enat" where
  "nulls_largest t = (case t of None \<Rightarrow> \<infinity> | Some n \<Rightarrow> enat n)"

definition order_desc :: "('a \<Rightarrow> timestamp option) \<Rightarrow> 'a list \<Rightarrow> 'a list" where
  "order_desc col rows = rev (sort_key (\<lambda>r. nulls_largest (col r)) (rev rows))"

text \<open>The \<^verbatim>\<open>data\<close> of a read: \<^verbatim>\<open>null\<close> when the request fails.\<close>

definition select_rows :: "env \<Rightarrow> 'a list \<Rightarrow> 'a list option" where
  "select_rows e rows = (if reachable e then Some rows else None)"

text \<open>\<^verbatim>\<open>data || []\<close>\<close>

definition or_empty :: "'a list option \<Rightarrow> 'a list" where
  "or_empty d = (case d of None \<Rightarrow> [] | Some rows \<Rightarrow> rows)"

section \<open>The client\<close>

text \<open>
  A request of the client resolves to a result with an \<^verbatim>\<open>error\<close> and, for a read, a
  \<^verbatim>\<open>data\<close> member; awaiting it never throws. The operations below take the store and what
  each of their requests meets, and return the state of the screen with the store. A
  notification shows a success text or the message of the store's error.
\<close>

datatype toast = Success string | Error store_error

definition json_number :: "number \<Rightarrow> rat field" where
  "json_number n = (case n of None \<Rightarrow> Null | Some q \<Rightarrow> Value q)"

text \<open>\<^verbatim>\<open>profile?.id\<close>\<close>

definition profile_id :: "profile option \<Rightarrow> uuid field" where
  "profile_id profile = (case profile of None \<Rightarrow> Absent | Some p \<Rightarrow> Value (profile.id p))"

subsection \<open>\<^verbatim>\<open>CustomerDashboard\<close>\<close>

text \<open>
  The form fields that the code passes through \<^verbatim>\<open>parseFloat\<close> hold the number read from
  their text.
\<close>

record payment_form =
  bill_id :: string
  amount :: number
  payment_method :: string
  transaction_id :: string

record complaint_form =
  subject :: string
  description :: string
  priority :: string

record customer_ui =
  bills :: "bill list"
  payments :: "payment list"
  complaints :: "complaint list"
  loading :: bool
  paymentData :: payment_form
  complaintData :: complaint_form
  toasts :: "toast list"

definition initial_paymentData :: payment_form where
  "initial_paymentData =
     \<lparr> payment_form.bill_id = [], amount = None, payment_method = [], transaction_id = [] \<rparr>"

definition initial_complaintData :: complaint_form where
  "initial_complaintData =
     \<lparr> complaint_form.subject = [], description = [], priority = ''medium'' \<rparr>"

definition initial_customer_ui :: customer_ui where
  "initial_customer_ui =
     \<lparr> customer_ui.bills = [], payments = [], complaints = [], loading = False,
       paymentData = initial_paymentData, complaintData = initial_complaintData,
       toasts = [] \<rparr>"

definition CustomerDashboard_fetchData ::
  "profile option \<Rightarrow> env \<times> env \<times> env \<Rightarrow> store \<Rightarrow> customer_ui \<Rightarrow> customer_ui" where
  "CustomerDashboard_fetchData profile es s ui =
     (case profile of
        None \<Rightarrow> ui
      | Some p \<Rightarrow>
          (case es of (e1, e2, e3) \<Rightarrow>
            let ui0 = ui\<lparr>customer_ui.loading := True\<rparr>;
                billsData = select_rows e1
                  (order_desc bill.created_at
                     (filter (\<lambda>b. bill.customer_id b = profile.id p) (store.bills s)));
                ui1 = ui0\<lparr>customer_ui.bills := or_empty billsData\<rparr>;
                paymentsData = select_rows e2
                  (order_desc payment.payment_date
                     (filter (\<lambda>x. payment.customer_id x = profile.id p) (store.payments s)));
                ui2 = ui1\<lparr>customer_ui.payments := or_empty paymentsData\<rparr>;
                complaintsData = select_rows e3
                  (order_desc complaint.created_at
                     (filter (\<lambda>c. complaint.customer_id c = profile.id p) (store.complaints s)));
                ui3 = ui2\<lparr>customer_ui.complaints := or_empty complaintsData\<rparr>
            in ui3\<lparr>customer_ui.loading := False\<rparr>))"


text \<open>The row \<^verbatim>\<open>makePayment\<close> inserts.\<close>

definition makePayment_insert :: "profile option \<Rightarrow> payment_form \<Rightarrow> payments_Insert" where
  "makePayment_insert profile pd =
     \<lparr> payments_Insert.bill_id = Value (payment_form.bill_id pd),
       customer_id = profile_id profile,
       amount = json_number (payment_form.amount pd),
       payment_method = Value (payment_form.payment_method pd),
       transaction_id = Value (payment_form.transaction_id pd),
       payment_date = Absent, status = Absent \<rparr>"

definition makePayment ::
  "profile option \<Rightarrow> env \<Rightarrow> env \<Rightarrow> env \<times> env \<times> env \<Rightarrow> store \<Rightarrow> customer_ui
     \<Rightarrow> customer_ui \<times> store" where
  "makePayment profile e_insert e_update e_fetch s ui =
     (case payments_insert e_insert (makePayment_insert profile (paymentData ui)) s of
        (Some err, s1) \<Rightarrow> (ui\<lparr>toasts := toasts ui @ [Error err]\<rparr>, s1)
      | (None, s1) \<Rightarrow>
          (case bills_update_status e_update ''paid''
                  (payment_form.bill_id (paymentData ui)) s1 of
             (_, s2) \<Rightarrow>
               (CustomerDashboard_fetchData profile e_fetch s2
                  (ui\<lparr>toasts := toasts ui @ [Success ''Payment recorded successfully''],
                      paymentData := initial_paymentData\<rparr>),
                s2)))"

text \<open>The row \<^verbatim>\<open>submitComplaint\<close> inserts: no status, the priority of the form.\<close>

definition submitComplaint_insert :: "profile option \<Rightarrow> complaint_form \<Rightarrow> complaints_Insert" where
  "submitComplaint_insert profile cd =
     \<lparr> complaints_Insert.customer_id = profile_id profile,
       subject = Value (complaint_form.subject cd),
       description = Value (complaint_form.description cd),
       status = Absent,
       priority = Value (complaint_form.priority cd),
       admin_response = Absent \<rparr>"

definition submitComplaint ::
  "profile option \<Rightarrow> env \<Rightarrow> env \<times> env \<times> env \<Rightarrow> store \<Rightarrow> customer_ui
     \<Rightarrow> customer_ui \<times> store" where
  "submitComplaint profile e_insert e_fetch s ui =
     (case complaints_insert e_insert (submitComplaint_insert profile (complaintData ui)) s of
        (Some err, s1) \<Rightarrow> (ui\<lparr>toasts := toasts ui @ [Error err]\<rparr>, s1)
      | (None, s1) \<Rightarrow>
          (CustomerDashboard_fetchData profile e_fetch s1
             (ui\<lparr>toasts := toasts ui @ [Success ''Complaint submitted successfully''],
                 complaintData := initial_complaintData\<rparr>),
           s1))"

text \<open>The priority select of the complaint dialog offers these four values.\<close>

definition priority_options :: "string list" where
  "priority_options = [''low'', ''medium'', ''high'', ''urgent'']"

definition setPriority :: "string \<Rightarrow> customer_ui \<Rightarrow> customer_ui" where
  "setPriority v ui =
     ui\<lparr>complaintData := (complaintData ui)\<lparr>complaint_form.priority := v\<rparr>\<rparr>"

definition pendingBills :: "customer_ui \<Rightarrow> bill list" where
  "pendingBills ui = filter (\<lambda>bill. bill.status bill = Some ''pending'') (customer_ui.bills ui)"

definition totalOutstanding :: "customer_ui \<Rightarrow> rat" where
  "totalOutstanding ui = foldl (\<lambda>sum bill. sum + bill.amount bill) 0 (pendingBills ui)"

text \<open>
  The payment dialog is rendered when there is a pending bill; its bill select offers one
  item per pending bill, with the bill's id as value. Choosing an item stores the id in the
  form and, when a fetched bill has that id, that bill's amount.
\<close>

definition bill_options :: "customer_ui \<Rightarrow> uuid list" where
  "bill_options ui =
     (if length (pendingBills ui) > 0 then map bill.id (pendingBills ui) else [])"

definition selectBill :: "uuid \<Rightarrow> customer_ui \<Rightarrow> customer_ui" where
  "selectBill v ui =
     (let ui1 = ui\<lparr>paymentData := (paymentData ui)\<lparr>payment_form.bill_id := v\<rparr>\<rparr>
      in case find (\<lambda>b. bill.id b = v) (customer_ui.bills ui) of
           None \<Rightarrow> ui1
         | Some selectedBill \<Rightarrow>
             ui1\<lparr>paymentData :=
                   (paymentData ui1)\<lparr>payment_form.amount := Some (bill.amount selectedBill)\<rparr>\<rparr>)"

subsection \<open>\<^verbatim>\<open>AdminDashboard\<close>\<close>

text \<open>
  The admin's reads of bills, payments and complaints embed the customer's profile,
  \<^verbatim>\<open>profiles!..._customer_id_fkey(full_name)\<close>: each row comes with the full name of the
  profile its \<^verbatim>\<open>customer_id\<close> references.
\<close>

type_synonym 'row with_profiles = "'row \<times> string option"

definition embed_profiles :: "store \<Rightarrow> ('row \<Rightarrow> uuid) \<Rightarrow> 'row \<Rightarrow> 'row with_profiles" where
  "embed_profiles s fk r =
     (r, map_option profile.full_name (find (\<lambda>p. profile.id p = fk r) (profiles s)))"

record bill_form =
  customer_id :: string
  meter_number :: string
  previous_reading :: number
  current_reading :: number
  bill_month :: string
  due_date :: date_text

record admin_ui =
  customers :: "profile list"
  bills :: "bill with_profiles list"
  payments :: "payment with_profiles list"
  complaints :: "complaint with_profiles list"
  loading :: bool
  newBill :: bill_form
  complaintsResponse :: "(uuid \<times> string) list"
  toasts :: "toast list"

definition initial_newBill :: bill_form where
  "initial_newBill =
     \<lparr> bill_form.customer_id = [], meter_number = [], previous_reading = None,
       current_reading = None, bill_month = [], due_date = None \<rparr>"

definition initial_admin_ui :: admin_ui where
  "initial_admin_ui =
     \<lparr> admin_ui.customers = [], bills = [], payments = [], complaints = [], loading = False,
       newBill = initial_newBill, complaintsResponse = [], toasts = [] \<rparr>"

definition AdminDashboard_fetchData ::
  "env \<times> env \<times> env \<times> env \<Rightarrow> store \<Rightarrow> admin_ui \<Rightarrow> admin_ui" where
  "AdminDashboard_fetchData es s ui =
     (case es of (e1, e2, e3, e4) \<Rightarrow>
        let ui0 = ui\<lparr>admin_ui.loading := True\<rparr>;
            customersData = select_rows e1
              (filter (\<lambda>p. profile.is_admin p = Some False) (profiles s));
            ui1 = ui0\<lparr>admin_ui.customers := or_empty customersData\<rparr>;
            billsData = select_rows e2
              (map (embed_profiles s bill.customer_id)
                 (order_desc bill.created_at (store.bills s)));
            ui2 = ui1\<lparr>admin_ui.bills := or_empty billsData\<rparr>;
            paymentsData = select_rows e3
              (map (embed_profiles s payment.customer_id)
                 (order_desc payment.payment_date (store.payments s)));
            ui3 = ui2\<lparr>admin_ui.payments := or_empty paymentsData\<rparr>;
            complaintsData = select_rows e4
              (map (embed_profiles s complaint.customer_id)
                 (order_desc complaint.created_at (store.complaints s)));
            ui4 = ui3\<lparr>admin_ui.complaints := or_empty complaintsData\<rparr>
        in ui4\<lparr>admin_ui.loading := False\<rparr>)"




definition updateComplaintStatus ::
  "uuid \<Rightarrow> string \<Rightarrow> string \<Rightarrow> env \<Rightarrow> env \<times> env \<times> env \<times> env \<Rightarrow> store \<Rightarrow> admin_ui
     \<Rightarrow> admin_ui \<times> store" where
  "updateComplaintStatus complaintId new_status response e_update e_fetch s ui =
     (case complaints_update_status e_update new_status response complaintId s of
        (Some err, s1) \<Rightarrow> (ui\<lparr>admin_ui.toasts := admin_ui.toasts ui @ [Error err]\<rparr>, s1)
      | (None, s1) \<Rightarrow>
          (AdminDashboard_fetchData e_fetch s1
             (ui\<lparr>admin_ui.toasts :=
                   admin_ui.toasts ui @ [Success ''Complaint updated successfully'']\<rparr>),
           s1))"

text \<open>
  The two buttons under a complaint that is neither resolved nor closed, with
  \<^verbatim>\<open>complaintsResponse[complaint.id] || ''\<close> as the response.
\<close>

definition response_for :: "admin_ui \<Rightarrow> uuid \<Rightarrow> string" where
  "response_for ui cid = (case map_of (complaintsResponse ui) cid of None \<Rightarrow> [] | Some r \<Rightarrow> r)"

definition markInProgress ::
  "complaint \<Rightarrow> env \<Rightarrow> env \<times> env \<times> env \<times> env \<Rightarrow> store \<Rightarrow> admin_ui \<Rightarrow> admin_ui \<times> store" where
  "markInProgress c e_update e_fetch s ui =
     updateComplaintStatus (complaint.id c) ''in_progress'' (response_for ui (complaint.id c))
       e_update e_fetch s ui"

definition markResolved ::
  "complaint \<Rightarrow> env \<Rightarrow> env \<times> env \<times> env \<times> env \<Rightarrow> store \<Rightarrow> admin_ui \<Rightarrow> admin_ui \<times> store" where
  "markResolved c e_update e_fetch s ui =
     updateComplaintStatus (complaint.id c) ''resolved'' (response_for ui (complaint.id c))
       e_update e_fetch s ui"

record stats =
  totalCustomers :: nat
  totalBills :: nat
  totalRevenue :: rat
  pendingComplaints :: nat

definition stats :: "admin_ui \<Rightarrow> stats" where
  "stats ui =
     \<lparr> totalCustomers = length (customers ui),
       totalBills = length (admin_ui.bills ui),
       totalRevenue =
         foldl (\<lambda>sum payment. sum + payment.amount (fst payment)) 0 (admin_ui.payments ui),
       pendingComplaints =
         length (filter (\<lambda>c. complaint.status (fst c) = Some ''open'') (admin_ui.complaints ui)) \<rparr>"

section \<open>Histories of the store\<close>

text \<open>
  The writes the tables accept, and the store after a sequence of them. A write that is
  refused leaves the store as it was.
\<close>

datatype request =
    BillsInsert env bills_Insert
  | BillsUpdateStatus env string uuid
  | PaymentsInsert env payments_Insert
  | ComplaintsInsert env complaints_Insert
  | ComplaintsUpdateStatus env string string uuid

fun apply_request :: "request \<Rightarrow> store \<Rightarrow> store" where
  "apply_request (BillsInsert e ins) s = snd (bills_insert e ins s)"
| "apply_request (BillsUpdateStatus e st bid) s = snd (bills_update_status e st bid s)"
| "apply_request (PaymentsInsert e ins) s = snd (payments_insert e ins s)"
| "apply_request (ComplaintsInsert e ins) s = snd (complaints_insert e ins s)"
| "apply_request (ComplaintsUpdateStatus e st resp cid) s =
     snd (complaints_update_status e st resp cid s)"

fun run :: "request list \<Rightarrow> store \<Rightarrow> store" where
  "run [] s = s"
| "run (r # rs) s = run rs (apply_request r s)"

text \<open>A number with at most two fractional digits.\<close>

definition scale2 :: "rat \<Rightarrow> bool" where
  "scale2 q = (round2 q = q)"

text \<open>
  What the two generated columns of a bill are, given its stored readings and rate: the
  readings and the rate have two fractional digits, \<^verbatim>\<open>units_consumed\<close> is their difference
  and \<^verbatim>\<open>amount\<close> is the product with the rate at two fractional digits.
\<close>

definition generated_columns :: "bill \<Rightarrow> bool" where
  "generated_columns b =
     (scale2 (bill.previous_reading b) \<and> scale2 (bill.current_reading b) \<and>
      scale2 (bill.rate_per_unit b) \<and>
      units_consumed b = bill.current_reading b - bill.previous_reading b \<and>
      bill.amount b =
        round2 ((bill.current_reading b - bill.previous_reading b) * bill.rate_per_unit b))"

section \<open>Example data\<close>

definition example_profile :: profile where
  "example_profile =
     \<lparr> profile.id = ''c1'', user_id = ''u1'', full_name = ''Ann'', phone_number = None,
       address = None, meter_number = Some ''M-1'', is_admin = Some False,
       created_at = Some 1, updated_at = Some 1 \<rparr>"

definition example_store :: store where
  "example_store =
     \<lparr> profiles = [example_profile], bills = [], payments = [], complaints = [] \<rparr>"

definition request_env :: "timestamp \<Rightarrow> uuid \<Rightarrow> bool \<Rightarrow> env" where
  "request_env t i ok = \<lparr> now = t, gen_random_uuid = i, reachable = ok \<rparr>"

definition example_bill_insert :: "rat \<Rightarrow> rat \<Rightarrow> bills_Insert" where
  "example_bill_insert p c =
     \<lparr> bills_Insert.customer_id = Value ''c1'', meter_number = Value ''M-1'',
       previous_reading = Value p, current_reading = Value c, rate_per_unit = Absent,
       bill_month = Value ''January 2024'', due_date = Value (Some 31), status = Absent \<rparr>"

definition example_payment :: "uuid \<Rightarrow> rat \<Rightarrow> string \<Rightarrow> timestamp \<Rightarrow> payment" where
  "example_payment i a st t =
     \<lparr> payment.id = i, bill_id = ''b1'', customer_id = ''c1'', amount = a,
       payment_method = ''mpesa'', transaction_id = Some ''TX'', payment_date = Some t,
       status = Some st, created_at = Some t \<rparr>"

definition example_payments_store :: store where
  "example_payments_store =
     example_store\<lparr>store.payments :=
       [example_payment ''p1'' 100 ''completed'' 3,
        example_payment ''p2'' 200 ''pending'' 5,
        example_payment ''p3'' 300 ''failed'' 4]\<rparr>"

definition example_bill :: "uuid \<Rightarrow> rat \<Rightarrow> string \<Rightarrow> timestamp \<Rightarrow> bill" where
  "example_bill i a st t =
     \<lparr> bill.id = i, customer_id = ''c1'', meter_number = ''M-1'', previous_reading = 0,
       current_reading = a / 50, units_consumed = a / 50, rate_per_unit = 50, amount = a,
       bill_month = ''January 2024'', due_date = 31, status = Some st,
       created_at = Some t, updated_at = Some t \<rparr>"

definition example_complaint :: "uuid \<Rightarrow> string \<Rightarrow> timestamp \<Rightarrow> complaint" where
  "example_complaint i st t =
     \<lparr> complaint.id = i, customer_id = ''c1'', subject = ''No water'',
       description = ''Dry since Monday'', status = Some st, priority = Some ''medium'',
       admin_response = None, created_at = Some t, updated_at = Some t \<rparr>"

definition example_complaints_store :: store where
  "example_complaints_store =
     example_store\<lparr>store.complaints :=
       [example_complaint ''k1'' ''open'' 3,
        example_complaint ''k2'' ''in_progress'' 5,
        example_complaint ''k3'' ''open'' 4]\<rparr>"

definition ok_env :: env where
  "ok_env = request_env 9 ''n1'' True"

definition example_bills_store :: store where
  "example_bills_store =
     example_store\<lparr>store.bills := [example_bill ''b1'' 2500 ''pending'' 2]\<rparr>"

definition example_paymentData :: payment_form where
  "example_paymentData =
     \<lparr> payment_form.bill_id = ''b1'', amount = Some 2500, payment_method = ''mpesa'',
       transaction_id = ''QX1'' \<rparr>"

definition down_env :: env where
  "down_env = request_env 9 ''n1'' False"




section \<open>Properties\<close>

subsection \<open>Rounding to two fractional digits\<close>

lemma round_half_away_of_int: "round_half_away (of_int k) = k"
proof -
  have a: "\<lfloor>rat_of_int k + 1 / 2\<rfloor> = k" by (rule floor_unique) simp_all
  have b: "\<lfloor>- rat_of_int k + 1 / 2\<rfloor> = - k"
    using floor_unique [of "- k" "- rat_of_int k + 1 / 2"] by simp
  show ?thesis unfolding round_half_away_def using a b by simp
qed

lemma round_half_away_near: "\<bar>of_int (round_half_away q) - q\<bar> \<le> 1 / 2"
proof (cases "0 \<le> q")
  case True
  define n where "n = \<lfloor>q + 1 / 2\<rfloor>"
  have "of_int n \<le> q + 1 / 2" "q + 1 / 2 < of_int n + 1"
    unfolding n_def by linarith+
  moreover have "round_half_away q = n"
    using True by (simp add: round_half_away_def n_def)
  ultimately show ?thesis by linarith
next
  case False
  define n where "n = \<lfloor>- q + 1 / 2\<rfloor>"
  have "of_int n \<le> - q + 1 / 2" "- q + 1 / 2 < of_int n + 1"
    unfolding n_def by linarith+
  then have "- (1 / 2) \<le> - rat_of_int n - q" "- rat_of_int n - q \<le> 1 / 2"
    by linarith+
  then have "\<bar>- rat_of_int n - q\<bar> \<le> 1 / 2"
    by (intro abs_leI) linarith+
  moreover have "round_half_away q = - n"
    using False by (simp add: round_half_away_def n_def)
  ultimately show ?thesis by simp
qed

lemma round2_exact: "q * 100 = of_int k \<Longrightarrow> round2 q = q"
  by (simp add: round2_def round_half_away_of_int)

lemma round2_near: "\<bar>round2 q - q\<bar> \<le> 1 / 200"
proof -
  have "\<bar>of_int (round_half_away (q * 100)) - q * 100\<bar> \<le> 1 / 2"
    by (rule round_half_away_near)
  then show ?thesis unfolding round2_def by (simp add: field_simps)
qed

lemma round2_idem: "round2 (round2 q) = round2 q"
  by (rule round2_exact [where k = "round_half_away (q * 100)"]) (simp add: round2_def)

lemma scale2_round2: "scale2 (round2 q)"
  by (simp add: scale2_def round2_idem)

lemma scale2_int: "scale2 q \<Longrightarrow> \<exists>k. q * 100 = of_int k"
  unfolding scale2_def round2_def
  by (metis nonzero_divide_eq_eq zero_neq_numeral)

lemma scale2_diff: "scale2 a \<Longrightarrow> scale2 b \<Longrightarrow> scale2 (a - b)"
proof -
  assume "scale2 a" "scale2 b"
  then obtain k l where "a * 100 = of_int k" "b * 100 = of_int l"
    by (blast dest: scale2_int)
  then have "(a - b) * 100 = of_int (k - l)" by (simp add: algebra_simps)
  then show ?thesis unfolding scale2_def by (rule round2_exact)
qed

lemma scale2_times_int: "scale2 a \<Longrightarrow> scale2 (a * of_int m)"
proof -
  assume "scale2 a"
  then obtain k where "a * 100 = of_int k" by (blast dest: scale2_int)
  then have "a * of_int m * 100 = of_int (k * m)" by (simp add: algebra_simps)
  then show ?thesis unfolding scale2_def by (rule round2_exact)
qed

lemma decimal_10_2_Inr: "decimal_10_2 col q = Inr v \<Longrightarrow> v = round2 q \<and> \<bar>v\<bar> < 10 ^ 8"
  by (auto simp add: decimal_10_2_def Let_def split: if_splits)

subsection \<open>The generated columns of a bill\<close>

lemma bills_new_row_generated:
  assumes "bills_new_row e ins s = Inr b"
  shows "generated_columns b"
proof -
  from assms obtain p0 c0 r0 where
    p: "bill.previous_reading b = round2 p0" and c: "bill.current_reading b = round2 c0" and
    r: "bill.rate_per_unit b = round2 r0" and
    u: "units_consumed b = round2 (bill.current_reading b - bill.previous_reading b)" and
    a: "bill.amount b =
          round2 ((bill.current_reading b - bill.previous_reading b) * bill.rate_per_unit b)"
    unfolding bills_new_row_def and_then_def
    by (auto split: sum.splits dest!: decimal_10_2_Inr)
  have "scale2 (bill.current_reading b - bill.previous_reading b)"
    unfolding p c by (intro scale2_diff scale2_round2)
  then have "units_consumed b = bill.current_reading b - bill.previous_reading b"
    using u by (simp add: scale2_def)
  then show ?thesis
    unfolding generated_columns_def using p c r a by (simp add: scale2_round2)
qed

lemma bills_insert_generated:
  "list_all generated_columns (store.bills s) \<Longrightarrow>
   list_all generated_columns (store.bills (snd (bills_insert e ins s)))"
  by (auto simp: bills_insert_def split: sum.splits dest: bills_new_row_generated)

lemma bills_update_status_generated:
  "list_all generated_columns (store.bills s) \<Longrightarrow>
   list_all generated_columns (store.bills (snd (bills_update_status e st bid s)))"
  by (auto simp: bills_update_status_def bills_update_updated_at_def generated_columns_def
        list_all_iff)

lemma apply_request_generated:
  "list_all generated_columns (store.bills s) \<Longrightarrow>
   list_all generated_columns (store.bills (apply_request r s))"
proof (cases r)
  case (BillsInsert e ins)
  then show "list_all generated_columns (store.bills s) \<Longrightarrow> ?thesis"
    by (simp add: bills_insert_generated)
next
  case (BillsUpdateStatus e st bid)
  then show "list_all generated_columns (store.bills s) \<Longrightarrow> ?thesis"
    by (simp add: bills_update_status_generated)
next
  case (PaymentsInsert e ins)
  then show "list_all generated_columns (store.bills s) \<Longrightarrow> ?thesis"
    by (auto simp: payments_insert_def split: sum.splits)
next
  case (ComplaintsInsert e ins)
  then show "list_all generated_columns (store.bills s) \<Longrightarrow> ?thesis"
    by (auto simp: complaints_insert_def split: sum.splits)
next
  case (ComplaintsUpdateStatus e st resp cid)
  then show "list_all generated_columns (store.bills s) \<Longrightarrow> ?thesis"
    by (auto simp: complaints_update_status_def)
qed

lemma run_generated:
  "list_all generated_columns (store.bills s) \<Longrightarrow>
   list_all generated_columns (store.bills (run rs s))"
  by (induction rs arbitrary: s) (simp_all add: apply_request_generated)

text \<open>
  C1. Start from a store without bills and let any sequence of writes run. Every bill then
  in the table has \<^verbatim>\<open>units_consumed\<close> equal to current reading minus previous reading, and
  \<^verbatim>\<open>amount\<close> equal to that difference times the rate per unit at two fractional digits: it
  is the product rounded to two fractional digits, at most half a hundredth away from it,
  equal to it whenever the product has two fractional digits, and so always at the default
  rate of 50.
\<close>

theorem bill_derived_fields:
  assumes "store.bills s0 = []" and "b \<in> set (store.bills (run rs s0))"
  shows "units_consumed b = bill.current_reading b - bill.previous_reading b \<and>
         bill.amount b =
           round2 ((bill.current_reading b - bill.previous_reading b) * bill.rate_per_unit b) \<and>
         \<bar>bill.amount b
            - (bill.current_reading b - bill.previous_reading b) * bill.rate_per_unit b\<bar>
           \<le> 1 / 200 \<and>
         (scale2 ((bill.current_reading b - bill.previous_reading b) * bill.rate_per_unit b)
            \<longrightarrow> bill.amount b
                 = (bill.current_reading b - bill.previous_reading b) * bill.rate_per_unit b) \<and>
         (bill.rate_per_unit b = 50
            \<longrightarrow> bill.amount b = (bill.current_reading b - bill.previous_reading b) * 50)"
proof -
  have "list_all generated_columns (store.bills (run rs s0))"
    by (rule run_generated) (simp add: assms(1))
  with assms(2) have g: "generated_columns b" by (simp add: list_all_iff)
  let ?d = "bill.current_reading b - bill.previous_reading b"
  from g have u: "units_consumed b = ?d"
    and a: "bill.amount b = round2 (?d * bill.rate_per_unit b)"
    and d: "scale2 ?d"
    by (simp_all add: generated_columns_def scale2_diff)
  have near: "\<bar>bill.amount b - ?d * bill.rate_per_unit b\<bar> \<le> 1 / 200"
    unfolding a by (rule round2_near)
  have "scale2 (?d * of_int 50)" using d by (rule scale2_times_int)
  then have fifty: "round2 (?d * 50) = ?d * 50" by (simp add: scale2_def)
  show ?thesis using u a near fifty by (simp add: scale2_def)
qed

text \<open>
  The scenario of C1: previous reading 100, current reading 150, no rate in the insert, so
  the default rate 50: 50 units, amount 2500.
\<close>

theorem bill_derived_fields_witness:
  "store.bills example_store = [] \<and>
   store.bills (run [BillsInsert (request_env 5 ''b1'' True) (example_bill_insert 100 150)]
                  example_store) \<noteq> [] \<and>
   (let b = hd (store.bills
                  (run [BillsInsert (request_env 5 ''b1'' True) (example_bill_insert 100 150)]
                     example_store))
    in bill.previous_reading b = 100 \<and> bill.current_reading b = 150 \<and>
       bill.rate_per_unit b = 50 \<and> units_consumed b = 50 \<and> bill.amount b = 2500)"
proof -
  let ?s = "run [BillsInsert (request_env 5 ''b1'' True) (example_bill_insert 100 150)]
              example_store"
  have h1: "store.bills example_store = []" by (simp add: example_store_def)
  have h2: "store.bills ?s \<noteq> []" by code_simp
  then have h3: "hd (store.bills ?s) \<in> set (store.bills ?s)" by simp
  have v: "bill.previous_reading (hd (store.bills ?s)) = 100"
    "bill.current_reading (hd (store.bills ?s)) = 150"
    "bill.rate_per_unit (hd (store.bills ?s)) = 50"
    by code_simp+
  show ?thesis
    using bill_derived_fields [OF h1 h3] h1 h2 v by (simp add: Let_def)
qed

subsection \<open>The figures of the two dashboards\<close>

lemma foldl_plus_sum_list:
  "foldl (\<lambda>sum x. sum + f x) (a::rat) xs = a + sum_list (map f xs)"
  by (induction xs arbitrary: a) (simp_all add: add.assoc)

lemma sum_list_order_desc:
  "sum_list (map f (order_desc col rows)) = (sum_list (map f rows) :: rat)"
proof -
  have "mset (order_desc col rows) = mset rows" by (simp add: order_desc_def)
  then have "sum_mset (image_mset f (mset (order_desc col rows))) = sum_mset (image_mset f (mset rows))"
    by simp
  then show ?thesis by (simp only: sum_mset_sum_list [symmetric] mset_map)
qed

lemma sum_list_partition:
  "sum_list (map f xs) = sum_list (map f (filter P xs)) + (sum_list (map f (filter (\<lambda>x. \<not> P x) xs)) :: rat)"
  by (induction xs) simp_all

text \<open>
C9. The admin's Total Revenue is the sum of \<^verbatim>\<open>amount\<close> over every fetched payment row:
  the completed ones plus all the others, unchanged when the statuses of the rows are
  replaced by anything. After a fetch whose payments read succeeds it is the sum of
  \<^verbatim>\<open>amount\<close> over every row of the payments table.
\<close>

theorem totalRevenue_all_payments:
  "totalRevenue (stats ui) = sum_list (map (\<lambda>p. payment.amount (fst p)) (admin_ui.payments ui)) \<and>
   totalRevenue (stats ui) =
     sum_list (map (\<lambda>p. payment.amount (fst p))
        (filter (\<lambda>p. payment.status (fst p) = Some ''completed'') (admin_ui.payments ui)))
     + sum_list (map (\<lambda>p. payment.amount (fst p))
        (filter (\<lambda>p. \<not> payment.status (fst p) = Some ''completed'') (admin_ui.payments ui))) \<and>
   totalRevenue (stats (ui\<lparr>admin_ui.payments :=
       map (\<lambda>p. ((fst p)\<lparr>payment.status := f (fst p)\<rparr>, snd p)) (admin_ui.payments ui)\<rparr>))
     = totalRevenue (stats ui) \<and>
   (reachable e3 \<longrightarrow>
      totalRevenue (stats (AdminDashboard_fetchData (e1, e2, e3, e4) s ui))
        = sum_list (map payment.amount (store.payments s)))"
proof -
  have a: "totalRevenue (stats ui) = sum_list (map (\<lambda>p. payment.amount (fst p)) (admin_ui.payments ui))" for ui
    by (simp add: stats_def foldl_plus_sum_list)
  have b: "sum_list (map (\<lambda>p. payment.amount (fst p)) (admin_ui.payments ui)) =
     sum_list (map (\<lambda>p. payment.amount (fst p))
        (filter (\<lambda>p. payment.status (fst p) = Some ''completed'') (admin_ui.payments ui)))
     + sum_list (map (\<lambda>p. payment.amount (fst p))
        (filter (\<lambda>p. \<not> payment.status (fst p) = Some ''completed'') (admin_ui.payments ui)))"
    by (rule sum_list_partition)
  have c: "totalRevenue (stats (ui\<lparr>admin_ui.payments :=
       map (\<lambda>p. ((fst p)\<lparr>payment.status := f (fst p)\<rparr>, snd p)) (admin_ui.payments ui)\<rparr>))
     = totalRevenue (stats ui)"
    by (simp add: a comp_def)
  have d: "totalRevenue (stats (AdminDashboard_fetchData (e1, e2, e3, e4) s ui))
        = sum_list (map payment.amount (store.payments s))" if "reachable e3"
    using that
    by (simp add: a AdminDashboard_fetchData_def Let_def select_rows_def or_empty_def
          embed_profiles_def comp_def sum_list_order_desc)
  show ?thesis using a b c d by simp
qed

text \<open>
Three payments of 100 (completed), 200 (pending) and 300 (failed): a revenue of 600.
\<close>

theorem totalRevenue_all_payments_witness:
  "reachable (request_env 9 [] True) \<and>
   totalRevenue (stats (AdminDashboard_fetchData
      (request_env 9 [] True, request_env 9 [] True, request_env 9 [] True, request_env 9 [] True)
      example_payments_store initial_admin_ui)) = 600"
  using totalRevenue_all_payments [of initial_admin_ui payment.status "request_env 9 [] True"
      "request_env 9 [] True" "request_env 9 [] True" "request_env 9 [] True" example_payments_store]
  by (simp add: request_env_def example_payments_store_def example_payment_def)

lemma filter_pending_overdue:
  "bill.status b = Some ''overdue'' \<Longrightarrow>
   filter (\<lambda>bill. bill.status bill = Some ''pending'') (xs @ b # ys) =
   filter (\<lambda>bill. bill.status bill = Some ''pending'') (xs @ ys)"
  by simp

text \<open>
C8. Outstanding Bills counts, and Total Outstanding sums, the fetched bills whose status
  is exactly \<^verbatim>\<open>pending\<close>. An overdue bill, wherever it stands in the list, changes neither
  figure, is no pending bill, and its id is not offered by the bill select of the payment
  dialog.
\<close>

theorem outstanding_pending_only:
  assumes "bill.status b = Some ''overdue''"
  shows "length (pendingBills ui)
           = length (filter (\<lambda>x. bill.status x = Some ''pending'') (customer_ui.bills ui)) \<and>
         totalOutstanding ui
           = sum_list (map bill.amount
               (filter (\<lambda>x. bill.status x = Some ''pending'') (customer_ui.bills ui))) \<and>
         pendingBills (ui\<lparr>customer_ui.bills := xs @ b # ys\<rparr>)
           = pendingBills (ui\<lparr>customer_ui.bills := xs @ ys\<rparr>) \<and>
         totalOutstanding (ui\<lparr>customer_ui.bills := xs @ b # ys\<rparr>)
           = totalOutstanding (ui\<lparr>customer_ui.bills := xs @ ys\<rparr>) \<and>
         b \<notin> set (pendingBills (ui\<lparr>customer_ui.bills := xs @ b # ys\<rparr>)) \<and>
         (distinct (map bill.id (xs @ b # ys))
            \<longrightarrow> bill.id b \<notin> set (bill_options (ui\<lparr>customer_ui.bills := xs @ b # ys\<rparr>)))"
proof -
  have 1: "totalOutstanding ui
           = sum_list (map bill.amount
               (filter (\<lambda>x. bill.status x = Some ''pending'') (customer_ui.bills ui)))"
    by (simp add: totalOutstanding_def pendingBills_def foldl_plus_sum_list)
  have 2: "pendingBills (ui\<lparr>customer_ui.bills := xs @ b # ys\<rparr>)
           = pendingBills (ui\<lparr>customer_ui.bills := xs @ ys\<rparr>)"
    using assms by (simp add: pendingBills_def)
  have 3: "totalOutstanding (ui\<lparr>customer_ui.bills := xs @ b # ys\<rparr>)
           = totalOutstanding (ui\<lparr>customer_ui.bills := xs @ ys\<rparr>)"
    by (simp add: totalOutstanding_def 2)
  have 4: "b \<notin> set (pendingBills (ui\<lparr>customer_ui.bills := xs @ b # ys\<rparr>))"
    using assms by (simp add: pendingBills_def)
  have 5: "bill.id b \<notin> set (bill_options (ui\<lparr>customer_ui.bills := xs @ b # ys\<rparr>))"
    if "distinct (map bill.id (xs @ b # ys))"
    using that assms by (auto simp: bill_options_def pendingBills_def)
  show ?thesis using 1 2 3 4 5 by (simp add: pendingBills_def)
qed

text \<open>
A pending bill of 2500, an overdue bill of 700 and a paid bill of 400: one outstanding
  bill, 2500 outstanding, and only the pending bill can be chosen.
\<close>

theorem outstanding_pending_only_witness:
  "bill.status (example_bill ''b2'' 700 ''overdue'' 2) = Some ''overdue'' \<and>
   distinct (map bill.id [example_bill ''b1'' 2500 ''pending'' 1,
                          example_bill ''b2'' 700 ''overdue'' 2,
                          example_bill ''b3'' 400 ''paid'' 3]) \<and>
   length (pendingBills (initial_customer_ui\<lparr>customer_ui.bills :=
      [example_bill ''b1'' 2500 ''pending'' 1, example_bill ''b2'' 700 ''overdue'' 2,
       example_bill ''b3'' 400 ''paid'' 3]\<rparr>)) = 1 \<and>
   totalOutstanding (initial_customer_ui\<lparr>customer_ui.bills :=
      [example_bill ''b1'' 2500 ''pending'' 1, example_bill ''b2'' 700 ''overdue'' 2,
       example_bill ''b3'' 400 ''paid'' 3]\<rparr>) = 2500 \<and>
   bill_options (initial_customer_ui\<lparr>customer_ui.bills :=
      [example_bill ''b1'' 2500 ''pending'' 1, example_bill ''b2'' 700 ''overdue'' 2,
       example_bill ''b3'' 400 ''paid'' 3]\<rparr>) = [''b1'']"
proof -
  have h: "bill.status (example_bill ''b2'' 700 ''overdue'' 2) = Some ''overdue''"
    by (simp add: example_bill_def)
  show ?thesis
    using outstanding_pending_only [OF h, of initial_customer_ui
        "[example_bill ''b1'' 2500 ''pending'' 1]" "[example_bill ''b3'' 400 ''paid'' 3]"] h
    by (simp add: example_bill_def pendingBills_def totalOutstanding_def bill_options_def)
qed

lemma length_filter_order_desc:
  "length (filter P (order_desc col rows)) = length (filter P rows)"
proof -
  have "mset (filter P (order_desc col rows)) = mset (filter P rows)"
    by (simp add: order_desc_def)
  then show ?thesis by (rule mset_eq_length)
qed

lemma count_after_update:
  assumes "distinct (map key xs)" and "c \<in> set xs" and "P c" and "\<not> P (upd c)"
  shows "length (filter P (map (\<lambda>x. if key x = key c then upd x else x) xs)) + 1
           = length (filter P xs)"
  using assms
proof (induction xs)
  case Nil
  then show ?case by simp
next
  case (Cons x xs)
  show ?case
  proof (cases "x = c")
    case True
    with Cons.prems have "\<forall>y \<in> set xs. key y \<noteq> key c" by (auto simp: image_iff)

    then have "map (\<lambda>x. if key x = key c then upd x else x) xs = xs"
      by (simp add: map_idI)
    with True Cons.prems show ?thesis by simp
  next
    case False
    with Cons.prems have "c \<in> set xs" "key x \<noteq> key c" "distinct (map key xs)"
      by auto
    with Cons.IH Cons.prems show ?thesis by simp
  qed
qed

lemma pendingComplaints_fetch:
  "reachable e4 \<Longrightarrow>
   pendingComplaints (stats (AdminDashboard_fetchData (e1, e2, e3, e4) s ui))
     = length (filter (\<lambda>c. complaint.status c = Some ''open'') (store.complaints s))"
  by (simp add: stats_def AdminDashboard_fetchData_def Let_def select_rows_def or_empty_def
        embed_profiles_def filter_map comp_def length_filter_order_desc)

text \<open>
C6. The admin's Pending Complaints figure is the number of fetched complaints whose status
  is exactly \<^verbatim>\<open>open\<close>. A complaint in progress, resolved or closed, wherever it stands in
  the list, does not count. With unique complaint ids, marking an open complaint resolved
  (the update and the reads of the complaints succeeding) lowers the figure by one.
\<close>

theorem pendingComplaints_open_only:
  "pendingComplaints (stats ui)
     = length (filter (\<lambda>c. complaint.status (fst c) = Some ''open'') (admin_ui.complaints ui)) \<and>
   (complaint.status (fst c) \<in> {Some ''in_progress'', Some ''resolved'', Some ''closed''} \<longrightarrow>
      pendingComplaints (stats (ui\<lparr>admin_ui.complaints := xs @ c # ys\<rparr>))
        = pendingComplaints (stats (ui\<lparr>admin_ui.complaints := xs @ ys\<rparr>))) \<and>
   (distinct (map complaint.id (store.complaints s)) \<and> x \<in> set (store.complaints s) \<and>
    complaint.status x = Some ''open'' \<and> reachable e_update \<and> reachable ed \<and> reachable ed'
     \<longrightarrow>
      pendingComplaints (stats (fst (markResolved x e_update (ea', eb', ec', ed') s
          (AdminDashboard_fetchData (ea, eb, ec, ed) s ui)))) + 1
        = pendingComplaints (stats (AdminDashboard_fetchData (ea, eb, ec, ed) s ui)))"
proof -
  have a: "pendingComplaints (stats ui)
     = length (filter (\<lambda>c. complaint.status (fst c) = Some ''open'') (admin_ui.complaints ui))"
    for ui
    by (simp add: stats_def)
  have b: "pendingComplaints (stats (ui\<lparr>admin_ui.complaints := xs @ c # ys\<rparr>))
        = pendingComplaints (stats (ui\<lparr>admin_ui.complaints := xs @ ys\<rparr>))"
    if "complaint.status (fst c) \<in> {Some ''in_progress'', Some ''resolved'', Some ''closed''}"
    using that by (auto simp: a)
  have c: "pendingComplaints (stats (fst (markResolved x e_update (ea', eb', ec', ed') s
          (AdminDashboard_fetchData (ea, eb, ec, ed) s ui)))) + 1
        = pendingComplaints (stats (AdminDashboard_fetchData (ea, eb, ec, ed) s ui))"
    if d: "distinct (map complaint.id (store.complaints s))" and x: "x \<in> set (store.complaints s)"
      and o: "complaint.status x = Some ''open''"
      and r: "reachable e_update" "reachable ed" "reachable ed'"
  proof -
    let ?upd = "\<lambda>c. complaints_update_updated_at e_update
                   (c\<lparr>complaint.status := Some ''resolved'',
                      complaint.admin_response :=
                        Some (response_for (AdminDashboard_fetchData (ea, eb, ec, ed) s ui)
                                (complaint.id x))\<rparr>)"
    let ?s1 = "s\<lparr>store.complaints :=
                 map (\<lambda>c. if complaint.id c = complaint.id x then ?upd c else c)
                   (store.complaints s)\<rparr>"
    have upd: "complaints_update_status e_update ''resolved''
                 (response_for (AdminDashboard_fetchData (ea, eb, ec, ed) s ui) (complaint.id x))
                 (complaint.id x) s = (None, ?s1)"
      using r by (simp add: complaints_update_status_def)
    have "pendingComplaints (stats (fst (markResolved x e_update (ea', eb', ec', ed') s
          (AdminDashboard_fetchData (ea, eb, ec, ed) s ui))))
        = length (filter (\<lambda>c. complaint.status c = Some ''open'') (store.complaints ?s1))"
      using r by (simp add: markResolved_def updateComplaintStatus_def upd pendingComplaints_fetch)
    moreover have "length (filter (\<lambda>c. complaint.status c = Some ''open'') (store.complaints ?s1)) + 1
        = length (filter (\<lambda>c. complaint.status c = Some ''open'') (store.complaints s))"
      using count_after_update [of complaint.id "store.complaints s" x
          "\<lambda>c. complaint.status c = Some ''open''" ?upd] d x o
      by (simp add: complaints_update_updated_at_def)
    ultimately show ?thesis using r by (simp add: pendingComplaints_fetch)
  qed
  show ?thesis using a b c by blast
qed

text \<open>
Two open complaints and one in progress: the figure is 2, and 1 after the first is marked
  resolved.
\<close>

theorem pendingComplaints_open_only_witness:
  "distinct (map complaint.id (store.complaints example_complaints_store)) \<and>
   example_complaint ''k1'' ''open'' 3 \<in> set (store.complaints example_complaints_store) \<and>
   complaint.status (example_complaint ''k1'' ''open'' 3) = Some ''open'' \<and>
   reachable ok_env \<and>
   pendingComplaints (stats (AdminDashboard_fetchData (ok_env, ok_env, ok_env, ok_env)
      example_complaints_store initial_admin_ui)) = 2 \<and>
   pendingComplaints (stats (fst (markResolved (example_complaint ''k1'' ''open'' 3) ok_env
      (ok_env, ok_env, ok_env, ok_env) example_complaints_store
      (AdminDashboard_fetchData (ok_env, ok_env, ok_env, ok_env)
         example_complaints_store initial_admin_ui)))) = 1"
proof -
  have h1: "distinct (map complaint.id (store.complaints example_complaints_store))"
    by (simp add: example_complaints_store_def example_complaint_def)
  have h2: "example_complaint ''k1'' ''open'' 3 \<in> set (store.complaints example_complaints_store)"
    by (simp add: example_complaints_store_def)
  have h3: "complaint.status (example_complaint ''k1'' ''open'' 3) = Some ''open''"
    by (simp add: example_complaint_def)
  have h4: "reachable ok_env" by (simp add: ok_env_def request_env_def)
  have before: "pendingComplaints (stats (AdminDashboard_fetchData (ok_env, ok_env, ok_env, ok_env)
      example_complaints_store initial_admin_ui)) = 2"
    using h4 by (simp add: pendingComplaints_fetch example_complaints_store_def example_complaint_def)
  show ?thesis
    using pendingComplaints_open_only [where s = example_complaints_store
        and x = "example_complaint ''k1'' ''open'' 3" and e_update = ok_env
        and ed = ok_env and ed' = ok_env and ea = ok_env and eb = ok_env and ec = ok_env
        and ea' = ok_env and eb' = ok_env and ec' = ok_env and ui = initial_admin_ui]
      h1 h2 h3 h4 before
    by simp
qed

subsection \<open>\<^verbatim>\<open>makePayment\<close>\<close>

lemma fetch_toasts [simp]:
  "customer_ui.toasts (CustomerDashboard_fetchData profile es s ui) = customer_ui.toasts ui"
  by (simp add: CustomerDashboard_fetchData_def Let_def split: option.splits prod.splits)

lemma fetch_paymentData [simp]:
  "paymentData (CustomerDashboard_fetchData profile es s ui) = paymentData ui"
  by (simp add: CustomerDashboard_fetchData_def Let_def split: option.splits prod.splits)

lemma fetch_complaintData [simp]:
  "complaintData (CustomerDashboard_fetchData profile es s ui) = complaintData ui"
  by (simp add: CustomerDashboard_fetchData_def Let_def split: option.splits prod.splits)

lemma bills_update_status_down:
  "\<not> reachable e \<Longrightarrow> bills_update_status e st bid s = (Some FailedToFetch, s)"
  by (simp add: bills_update_status_def)

text \<open>
C10. Whenever the insert of the payment comes back without an error, \<^verbatim>\<open>makePayment\<close>
  shows the success notification and clears the payment form, whatever the update of the
  bill does; when the update does not reach the table, its result carries an error that
  nothing reads.
\<close>

theorem makePayment_ignores_update_result:
  assumes "fst (payments_insert e_insert (makePayment_insert profile (paymentData ui)) s) = None"
  shows "customer_ui.toasts (fst (makePayment profile e_insert e_update e_fetch s ui))
           = customer_ui.toasts ui @ [Success ''Payment recorded successfully''] \<and>
         paymentData (fst (makePayment profile e_insert e_update e_fetch s ui))
           = initial_paymentData \<and>
         (\<not> reachable e_update \<longrightarrow>
            fst (bills_update_status e_update ''paid'' (payment_form.bill_id (paymentData ui))
                   (snd (payments_insert e_insert
                           (makePayment_insert profile (paymentData ui)) s)))
              = Some FailedToFetch)"
  using assms
  by (cases "payments_insert e_insert (makePayment_insert profile (paymentData ui)) s";
      cases "bills_update_status e_update ''paid'' (payment_form.bill_id (paymentData ui))
               (snd (payments_insert e_insert (makePayment_insert profile (paymentData ui)) s))")
     (auto simp add: makePayment_def bills_update_status_down)

lemma example_payment_accepted:
  "payments_insert ok_env (makePayment_insert (Some example_profile) example_paymentData)
     example_bills_store
   = (None, example_bills_store\<lparr>store.payments :=
        [\<lparr> payment.id = ''n1'', bill_id = ''b1'', customer_id = ''c1'', amount = 2500,
           payment_method = ''mpesa'', transaction_id = Some ''QX1'', payment_date = Some 9,
           status = Some ''completed'', created_at = Some 9 \<rparr>]\<rparr>)"
  by code_simp

text \<open>
A customer pays the pending bill b1 and the update of the bill fails: success is shown
  and the form is cleared.
\<close>

theorem makePayment_ignores_update_result_witness:
  "fst (payments_insert ok_env
          (makePayment_insert (Some example_profile)
             (paymentData (initial_customer_ui\<lparr>paymentData := example_paymentData\<rparr>)))
          example_bills_store) = None \<and>
   \<not> reachable down_env \<and>
   customer_ui.toasts (fst (makePayment (Some example_profile) ok_env down_env
        (ok_env, ok_env, ok_env) example_bills_store
        (initial_customer_ui\<lparr>paymentData := example_paymentData\<rparr>)))
     = [Success ''Payment recorded successfully''] \<and>
   paymentData (fst (makePayment (Some example_profile) ok_env down_env
        (ok_env, ok_env, ok_env) example_bills_store
        (initial_customer_ui\<lparr>paymentData := example_paymentData\<rparr>)))
     = initial_paymentData"
proof -
  have h: "fst (payments_insert ok_env
          (makePayment_insert (Some example_profile)
             (paymentData (initial_customer_ui\<lparr>paymentData := example_paymentData\<rparr>)))
          example_bills_store) = None"
    by (simp add: example_payment_accepted)
  have d: "\<not> reachable down_env" by (simp add: down_env_def request_env_def)
  show ?thesis
    using makePayment_ignores_update_result [OF h, of down_env "(ok_env, ok_env, ok_env)"] h d
    by (simp add: initial_customer_ui_def)
qed

lemma payments_new_row_bill_id:
  "payments_new_row e ins s = Inr p \<Longrightarrow> payments_Insert.bill_id ins = Value (payment.bill_id p)"
  unfolding payments_new_row_def and_then_def
  by (auto simp: not_null_def references_def split: sum.splits field.splits if_splits)

lemma payments_insert_accepted:
  assumes "payments_insert e ins s = (None, s1)"
  shows "\<exists>p. s1 = s\<lparr>store.payments := store.payments s @ [p]\<rparr> \<and>
             payments_Insert.bill_id ins = Value (payment.bill_id p)"
  using assms
  by (auto simp: payments_insert_def split: if_splits sum.splits dest: payments_new_row_bill_id)

lemma bills_update_status_paid:
  "reachable e \<Longrightarrow>
   bills_update_status e ''paid'' bid s =
     (None, s\<lparr>store.bills :=
        map (\<lambda>b. if bill.id b = bid
                  then bills_update_updated_at e (b\<lparr>bill.status := Some ''paid''\<rparr>)
                  else b) (store.bills s)\<rparr>)"
  by (simp add: bills_update_status_def)

text \<open>
C2. \<^verbatim>\<open>makePayment\<close> is two writes in sequence. When the insert of the payment is accepted,
  the store afterwards is what the update of the bill's status to \<^verbatim>\<open>paid\<close> leaves of the
  store with the payment in it, and the payment carries the bill id of the form. If the
  update reaches the table, every bill with that id is \<^verbatim>\<open>paid\<close>. If it does not, the
  payment stays recorded and the bills are exactly as before the operation: a bill that
  was pending is still pending.
\<close>

theorem makePayment_not_atomic:
  assumes "payments_insert e_insert (makePayment_insert profile (paymentData ui)) s = (None, s1)"
  shows "(\<forall>e_update.
            snd (makePayment profile e_insert e_update e_fetch s ui)
              = snd (bills_update_status e_update ''paid''
                       (payment_form.bill_id (paymentData ui)) s1)) \<and>
         (\<exists>p. store.payments s1 = store.payments s @ [p] \<and>
              payment.bill_id p = payment_form.bill_id (paymentData ui)) \<and>
         (\<forall>e_update. reachable e_update \<longrightarrow>
            store.payments (snd (makePayment profile e_insert e_update e_fetch s ui))
              = store.payments s1 \<and>
            (\<forall>b \<in> set (store.bills (snd (makePayment profile e_insert e_update e_fetch s ui))).
               bill.id b = payment_form.bill_id (paymentData ui)
                 \<longrightarrow> bill.status b = Some ''paid'')) \<and>
         (\<forall>e_update. \<not> reachable e_update \<longrightarrow>
            store.payments (snd (makePayment profile e_insert e_update e_fetch s ui))
              = store.payments s1 \<and>
            store.bills (snd (makePayment profile e_insert e_update e_fetch s ui))
              = store.bills s)"
proof -
  from payments_insert_accepted [OF assms] obtain p where
    s1: "s1 = s\<lparr>store.payments := store.payments s @ [p]\<rparr>" and
    bid: "payment.bill_id p = payment_form.bill_id (paymentData ui)"
    by (auto simp: makePayment_insert_def)
  have seq: "snd (makePayment profile e_insert e_update e_fetch s ui)
              = snd (bills_update_status e_update ''paid''
                       (payment_form.bill_id (paymentData ui)) s1)" for e_update
    using assms by (simp add: makePayment_def split: prod.splits)
  have recorded: "\<exists>p. store.payments s1 = store.payments s @ [p] \<and>
              payment.bill_id p = payment_form.bill_id (paymentData ui)"
    using s1 bid by auto
  have up: "store.payments (snd (makePayment profile e_insert e_update e_fetch s ui))
              = store.payments s1 \<and>
            (\<forall>b \<in> set (store.bills (snd (makePayment profile e_insert e_update e_fetch s ui))).
               bill.id b = payment_form.bill_id (paymentData ui)
                 \<longrightarrow> bill.status b = Some ''paid'')"
    if "reachable e_update" for e_update
    using that
    by (auto simp: seq bills_update_status_paid bills_update_updated_at_def)
  have down: "store.payments (snd (makePayment profile e_insert e_update e_fetch s ui))
              = store.payments s1 \<and>
            store.bills (snd (makePayment profile e_insert e_update e_fetch s ui))
              = store.bills s"
    if "\<not> reachable e_update" for e_update
    using that by (simp add: seq bills_update_status_down s1)
  show ?thesis using seq recorded up down by blast
qed

text \<open>
An execution of each kind on a store with the pending bill b1: with the update failing,
  the payment for b1 is recorded and b1 is still pending; with both writes succeeding, b1
  is paid.
\<close>

theorem makePayment_not_atomic_witness:
  "\<not> reachable down_env \<and>
   store.payments (snd (makePayment (Some example_profile) ok_env down_env
        (ok_env, ok_env, ok_env) example_bills_store
        (initial_customer_ui\<lparr>paymentData := example_paymentData\<rparr>)))
     = [\<lparr> payment.id = ''n1'', bill_id = ''b1'', customer_id = ''c1'', amount = 2500,
           payment_method = ''mpesa'', transaction_id = Some ''QX1'', payment_date = Some 9,
           status = Some ''completed'', created_at = Some 9 \<rparr>] \<and>
   map (\<lambda>b. (bill.id b, bill.status b))
     (store.bills (snd (makePayment (Some example_profile) ok_env down_env
        (ok_env, ok_env, ok_env) example_bills_store
        (initial_customer_ui\<lparr>paymentData := example_paymentData\<rparr>))))
     = [(''b1'', Some ''pending'')] \<and>
   map (\<lambda>b. (bill.id b, bill.status b))
     (store.bills (snd (makePayment (Some example_profile) ok_env ok_env
        (ok_env, ok_env, ok_env) example_bills_store
        (initial_customer_ui\<lparr>paymentData := example_paymentData\<rparr>))))
     = [(''b1'', Some ''paid'')]"
proof -
  let ?ui = "initial_customer_ui\<lparr>paymentData := example_paymentData\<rparr>"
  have pd: "paymentData ?ui = example_paymentData" by simp
  have d: "\<not> reachable down_env" by (simp add: down_env_def request_env_def)
  have u: "reachable ok_env" by (simp add: ok_env_def request_env_def)
  note t = makePayment_not_atomic [of ok_env "Some example_profile" ?ui example_bills_store,
      unfolded pd, OF example_payment_accepted, of "(ok_env, ok_env, ok_env)"]
  note seq = t [THEN conjunct1, rule_format, of ok_env]
  note down = t [THEN conjunct2, THEN conjunct2, THEN conjunct2, rule_format, OF d]
  show ?thesis
    using d down seq u
    by (simp add: bills_update_status_paid bills_update_updated_at_def
          example_bills_store_def example_bill_def example_paymentData_def)
qed

subsection \<open>\<^verbatim>\<open>submitComplaint\<close>\<close>

lemma complaints_new_row_defaults:
  assumes "complaints_new_row e (submitComplaint_insert profile cd) s = Inr c"
  shows "complaint.status c = Some ''open'' \<and>
         complaint.priority c = Some (complaint_form.priority cd)"
  using assms
  unfolding complaints_new_row_def and_then_def submitComplaint_insert_def
  by (auto simp: nullable_default_def check_in_def split: sum.splits if_splits)

lemma complaints_new_row_accepts:
  assumes "profile.id p \<in> set (map profile.id (profiles s))"
    and "gen_random_uuid e \<notin> set (map complaint.id (store.complaints s))"
    and "complaint_form.priority cd \<in> set priority_options"
  shows "\<exists>c. complaints_new_row e (submitComplaint_insert (Some p) cd) s = Inr c"
  using assms
  unfolding complaints_new_row_def and_then_def submitComplaint_insert_def
  by (auto simp: nullable_default_def check_in_def not_null_def references_def primary_key_def
        profile_id_def priority_options_def)

text \<open>
C4. The complaint form starts with priority \<^verbatim>\<open>medium\<close> and the priority select replaces
  it by the chosen value. Whatever \<^verbatim>\<open>submitComplaint\<close> meets, it either leaves the
  complaints table as it is or adds one complaint, with status \<^verbatim>\<open>open\<close> and the priority
  of the form. It does add it when the profile is loaded and is a row of the profiles
  table, the request reaches the table, the drawn id is new and the priority is one of the
  four options; the form then goes back to priority \<^verbatim>\<open>medium\<close>.
\<close>

theorem submitComplaint_defaults:
  "complaint_form.priority (complaintData initial_customer_ui) = ''medium'' \<and>
   complaint_form.priority (complaintData (setPriority v ui)) = v \<and>
   (store.complaints (snd (submitComplaint profile e ef s ui)) = store.complaints s \<or>
    (\<exists>c. store.complaints (snd (submitComplaint profile e ef s ui)) = store.complaints s @ [c] \<and>
         complaint.status c = Some ''open'' \<and>
         complaint.priority c = Some (complaint_form.priority (complaintData ui)))) \<and>
   (profile = Some p \<and> profile.id p \<in> set (map profile.id (profiles s)) \<and>
    gen_random_uuid e \<notin> set (map complaint.id (store.complaints s)) \<and> reachable e \<and>
    complaint_form.priority (complaintData ui) \<in> set priority_options
    \<longrightarrow>
      (\<exists>c. store.complaints (snd (submitComplaint profile e ef s ui)) = store.complaints s @ [c] \<and>
           complaint.status c = Some ''open'' \<and>
           complaint.priority c = Some (complaint_form.priority (complaintData ui))) \<and>
      customer_ui.toasts (fst (submitComplaint profile e ef s ui))
        = customer_ui.toasts ui @ [Success ''Complaint submitted successfully''] \<and>
      complaint_form.priority (complaintData (fst (submitComplaint profile e ef s ui)))
        = ''medium'')"
proof -
  have 1: "complaint_form.priority (complaintData initial_customer_ui) = ''medium''"
    by (simp add: initial_customer_ui_def initial_complaintData_def)
  have 2: "complaint_form.priority (complaintData (setPriority v ui)) = v"
    by (simp add: setPriority_def)
  have 3: "store.complaints (snd (submitComplaint profile e ef s ui)) = store.complaints s \<or>
    (\<exists>c. store.complaints (snd (submitComplaint profile e ef s ui)) = store.complaints s @ [c] \<and>
         complaint.status c = Some ''open'' \<and>
         complaint.priority c = Some (complaint_form.priority (complaintData ui)))"
    by (auto simp: submitComplaint_def complaints_insert_def
          split: sum.splits dest: complaints_new_row_defaults)
  have 4: "(\<exists>c. store.complaints (snd (submitComplaint profile e ef s ui)) = store.complaints s @ [c] \<and>
           complaint.status c = Some ''open'' \<and>
           complaint.priority c = Some (complaint_form.priority (complaintData ui))) \<and>
      customer_ui.toasts (fst (submitComplaint profile e ef s ui))
        = customer_ui.toasts ui @ [Success ''Complaint submitted successfully''] \<and>
      complaint_form.priority (complaintData (fst (submitComplaint profile e ef s ui)))
        = ''medium''"
    if h: "profile = Some p" "profile.id p \<in> set (map profile.id (profiles s))"
      "gen_random_uuid e \<notin> set (map complaint.id (store.complaints s))" "reachable e"
      "complaint_form.priority (complaintData ui) \<in> set priority_options"
  proof -
    from complaints_new_row_accepts [OF h(2) h(3) h(5)] obtain c where
      c: "complaints_new_row e (submitComplaint_insert (Some p) (complaintData ui)) s = Inr c"
      by blast
    from complaints_new_row_defaults [OF c] c h(1) h(4) show ?thesis
      by (simp add: submitComplaint_def complaints_insert_def initial_complaintData_def)
  qed
  show ?thesis using 1 2 3 4 by blast
qed

text \<open>
A complaint submitted with the form untouched is \<^verbatim>\<open>open\<close> with priority \<^verbatim>\<open>medium\<close>;
  submitted after choosing \<^verbatim>\<open>high\<close> it is \<^verbatim>\<open>open\<close> with priority \<^verbatim>\<open>high\<close>.
\<close>

theorem submitComplaint_defaults_witness:
  "example_profile \<in> set (profiles example_store) \<and> reachable ok_env \<and>
   ''high'' \<in> set priority_options \<and>
   map (\<lambda>c. (complaint.status c, complaint.priority c))
     (store.complaints (snd (submitComplaint (Some example_profile) ok_env (ok_env, ok_env, ok_env)
        example_store initial_customer_ui)))
     = [(Some ''open'', Some ''medium'')] \<and>
   map (\<lambda>c. (complaint.status c, complaint.priority c))
     (store.complaints (snd (submitComplaint (Some example_profile) ok_env (ok_env, ok_env, ok_env)
        example_store (setPriority ''high'' initial_customer_ui))))
     = [(Some ''open'', Some ''high'')]"
proof -
  have p: "example_profile \<in> set (profiles example_store)" by (simp add: example_store_def)
  have pid: "profile.id example_profile \<in> set (map profile.id (profiles example_store))"
    by (simp add: example_store_def)
  have r: "reachable ok_env" by (simp add: ok_env_def request_env_def)
  have o: "''high'' \<in> set priority_options" by (simp add: priority_options_def)
  have f: "gen_random_uuid ok_env \<notin> set (map complaint.id (store.complaints example_store))"
    by (simp add: example_store_def)
  have e: "store.complaints example_store = []" by (simp add: example_store_def)
  have m: "complaint_form.priority (complaintData initial_customer_ui) = ''medium''"
    by (simp add: initial_customer_ui_def initial_complaintData_def)
  have h: "complaint_form.priority (complaintData (setPriority ''high'' initial_customer_ui))
             = ''high''"
    by (simp add: setPriority_def)
  have om: "complaint_form.priority (complaintData initial_customer_ui) \<in> set priority_options"
    by (simp add: m priority_options_def)
  have oh: "complaint_form.priority (complaintData (setPriority ''high'' initial_customer_ui))
              \<in> set priority_options"
    by (simp add: h priority_options_def)
  note t = submitComplaint_defaults [where profile = "Some example_profile" and p = example_profile
      and s = example_store and e = ok_env and ef = "(ok_env, ok_env, ok_env)",
      THEN conjunct2, THEN conjunct2, THEN conjunct2, rule_format]
  from t [where ui = initial_customer_ui, OF conjI [OF refl conjI [OF pid conjI [OF f conjI [OF r om]]]]]
  have a: "map (\<lambda>c. (complaint.status c, complaint.priority c))
     (store.complaints (snd (submitComplaint (Some example_profile) ok_env (ok_env, ok_env, ok_env)
        example_store initial_customer_ui)))
     = [(Some ''open'', Some ''medium'')]"
    by (auto simp: e m)
  from t [where ui = "setPriority ''high'' initial_customer_ui",
      OF conjI [OF refl conjI [OF pid conjI [OF f conjI [OF r oh]]]]]
  have b: "map (\<lambda>c. (complaint.status c, complaint.priority c))
     (store.complaints (snd (submitComplaint (Some example_profile) ok_env (ok_env, ok_env, ok_env)
        example_store (setPriority ''high'' initial_customer_ui))))
     = [(Some ''open'', Some ''high'')]"
    by (auto simp: e h)
  show ?thesis using p r o a b by simp
qed

subsection \<open>The reads of the two dashboards\<close>

lemma mset_order_desc [simp]: "mset (order_desc col rows) = mset rows"
  by (simp add: order_desc_def)

lemma set_order_desc [simp]: "set (order_desc col rows) = set rows"
  by (simp add: order_desc_def)

















subsection \<open>\<^verbatim>\<open>createBill\<close> with a current reading below the previous one\<close>

lemma round_half_away_minus: "round_half_away (- q) = - round_half_away q"
  by (cases "q = 0") (auto simp: round_half_away_def floor_unique)




lemma round2_minus: "round2 (- q) = - round2 q"
  by (simp add: round2_def round_half_away_minus)













subsection \<open>\<^verbatim>\<open>updateComplaintStatus\<close>\<close>

lemma complaints_new_row_id:
  "complaints_new_row e ins s = Inr c \<Longrightarrow>
   complaint.id c \<notin> set (map complaint.id (store.complaints s))"
  unfolding complaints_new_row_def and_then_def
  by (auto simp: primary_key_def split: sum.splits if_splits)

lemma apply_request_distinct_complaint_ids:
  "distinct (map complaint.id (store.complaints s)) \<Longrightarrow>
   distinct (map complaint.id (store.complaints (apply_request r s)))"
proof (cases r)
  case (BillsInsert e ins)
  then show "distinct (map complaint.id (store.complaints s)) \<Longrightarrow> ?thesis"
    by (auto simp: bills_insert_def split: sum.splits)
next
  case (BillsUpdateStatus e st bid)
  then show "distinct (map complaint.id (store.complaints s)) \<Longrightarrow> ?thesis"
    by (auto simp: bills_update_status_def)
next
  case (PaymentsInsert e ins)
  then show "distinct (map complaint.id (store.complaints s)) \<Longrightarrow> ?thesis"
    by (auto simp: payments_insert_def split: sum.splits)
next
  case (ComplaintsInsert e ins)
  then show "distinct (map complaint.id (store.complaints s)) \<Longrightarrow> ?thesis"
    by (auto simp: complaints_insert_def split: sum.splits dest: complaints_new_row_id)
next
  case (ComplaintsUpdateStatus e st resp cid)
  have "complaint.id \<circ>
          (\<lambda>c. if complaint.id c = cid
                then complaints_update_updated_at e
                       (c\<lparr>complaint.status := Some st, complaint.admin_response := Some resp\<rparr>)
                else c) = complaint.id"
    by (auto simp: fun_eq_iff complaints_update_updated_at_def)
  with ComplaintsUpdateStatus
  show "distinct (map complaint.id (store.complaints s)) \<Longrightarrow> ?thesis"
    by (simp add: complaints_update_status_def)
qed

lemma run_distinct_complaint_ids:
  "distinct (map complaint.id (store.complaints s)) \<Longrightarrow>
   distinct (map complaint.id (store.complaints (run rs s)))"
  by (induction rs arbitrary: s) (simp_all add: apply_request_distinct_complaint_ids)

lemma distinct_one_match:
  "distinct (map key xs) \<Longrightarrow> length (filter (\<lambda>x. key x = k) xs) \<le> 1"
  by (induction xs) (auto simp: filter_empty_conv image_iff)

text \<open>
C5, as the code has it. \<^verbatim>\<open>updateComplaintStatus\<close> issues one update carrying the new
  status and the response. When the request reaches the table and the status is one of
  the four the check constraint admits (or no complaint has the id), the store afterwards
  is the store before with, on each complaint of that id, the new status, the response as
  \<^verbatim>\<open>admin_response\<close> and, set by the table's update trigger, \<^verbatim>\<open>updated_at\<close> at the time
  of the update: no other field of that complaint, no other complaint and no other table
  changes. Otherwise the store does not change at all. In a table grown from an empty one
  by any writes at most one complaint has the id.
\<close>

theorem updateComplaintStatus_frame:
  "(reachable e \<and>
    (new_status \<in> set [''open'', ''in_progress'', ''resolved'', ''closed''] \<or>
     cid \<notin> set (map complaint.id (store.complaints s)))
    \<longrightarrow>
      snd (updateComplaintStatus cid new_status response e ef s ui)
        = s\<lparr>store.complaints :=
             map (\<lambda>c. if complaint.id c = cid
                       then c\<lparr>complaint.status := Some new_status,
                              complaint.admin_response := Some response,
                              complaint.updated_at := Some (now e)\<rparr>
                       else c) (store.complaints s)\<rparr>) \<and>
   (\<not> (reachable e \<and>
       (new_status \<in> set [''open'', ''in_progress'', ''resolved'', ''closed''] \<or>
        cid \<notin> set (map complaint.id (store.complaints s))))
    \<longrightarrow> snd (updateComplaintStatus cid new_status response e ef s ui) = s) \<and>
   (store.complaints s0 = [] \<and> s = run rs s0
    \<longrightarrow> length (filter (\<lambda>c. complaint.id c = cid) (store.complaints s)) \<le> 1)"
proof -
  have u: "snd (updateComplaintStatus cid new_status response e ef s ui)
             = snd (complaints_update_status e new_status response cid s)"
    by (simp add: updateComplaintStatus_def split: prod.splits option.splits)
  have a: "snd (updateComplaintStatus cid new_status response e ef s ui)
        = s\<lparr>store.complaints :=
             map (\<lambda>c. if complaint.id c = cid
                       then c\<lparr>complaint.status := Some new_status,
                              complaint.admin_response := Some response,
                              complaint.updated_at := Some (now e)\<rparr>
                       else c) (store.complaints s)\<rparr>"
    if "reachable e \<and>
    (new_status \<in> set [''open'', ''in_progress'', ''resolved'', ''closed''] \<or>
     cid \<notin> set (map complaint.id (store.complaints s)))"
    using that unfolding u
    by (auto simp: complaints_update_status_def complaints_update_updated_at_def)
  have b: "snd (updateComplaintStatus cid new_status response e ef s ui) = s"
    if "\<not> (reachable e \<and>
       (new_status \<in> set [''open'', ''in_progress'', ''resolved'', ''closed''] \<or>
        cid \<notin> set (map complaint.id (store.complaints s))))"
    using that unfolding u
    by (auto simp: complaints_update_status_def)
  have c: "length (filter (\<lambda>c. complaint.id c = cid) (store.complaints s)) \<le> 1"
    if "store.complaints s0 = [] \<and> s = run rs s0"
  proof -
    from that have "distinct (map complaint.id (store.complaints s))"
      by (simp add: run_distinct_complaint_ids)
    then show ?thesis by (rule distinct_one_match)
  qed
  show ?thesis using a b c by blast
qed

text \<open>
Marking k1 resolved at time 9 with the response Fixed: k1 gets the status, the response
  and updated_at 9; k2 and k3 are as before.
\<close>

theorem updateComplaintStatus_frame_witness:
  "reachable ok_env \<and>
   map (\<lambda>c. (complaint.id c, complaint.status c, complaint.admin_response c,
             complaint.updated_at c))
     (store.complaints (snd (updateComplaintStatus ''k1'' ''resolved'' ''Fixed'' ok_env
        (ok_env, ok_env, ok_env, ok_env) example_complaints_store initial_admin_ui)))
     = [(''k1'', Some ''resolved'', Some ''Fixed'', Some 9),
        (''k2'', Some ''in_progress'', None, Some 5),
        (''k3'', Some ''open'', None, Some 4)]"
proof -
  have r: "reachable ok_env" by (simp add: ok_env_def request_env_def)
  have n: "now ok_env = 9" by (simp add: ok_env_def request_env_def)
  have h: "reachable ok_env \<and>
    (''resolved'' \<in> set [''open'', ''in_progress'', ''resolved'', ''closed''] \<or>
     ''k1'' \<notin> set (map complaint.id (store.complaints example_complaints_store)))"
    using r by simp
  note t = updateComplaintStatus_frame [where e = ok_env and new_status = "''resolved''"
      and cid = "''k1''" and s = example_complaints_store and response = "''Fixed''"
      and ef = "(ok_env, ok_env, ok_env, ok_env)" and ui = initial_admin_ui,
      THEN conjunct1, rule_format, OF h]
  show ?thesis
    unfolding t using r
    by (simp add: n example_complaints_store_def example_complaint_def)
qed

text \<open>
C5 as stated fails on \<^verbatim>\<open>updated_at\<close>: the complaint k1, last updated at 3, is marked
  resolved at 9 and its updated_at becomes 9, so the table afterwards is not the one in
  which only status and admin_response of k1 changed.
\<close>

theorem updateComplaintStatus_updated_at_counterexample:
  "map complaint.updated_at (store.complaints example_complaints_store)
     = [Some 3, Some 5, Some 4] \<and>
   map complaint.updated_at
     (store.complaints (snd (updateComplaintStatus ''k1'' ''resolved'' ''Fixed'' ok_env
        (ok_env, ok_env, ok_env, ok_env) example_complaints_store initial_admin_ui)))
     = [Some 9, Some 5, Some 4] \<and>
   store.complaints (snd (updateComplaintStatus ''k1'' ''resolved'' ''Fixed'' ok_env
        (ok_env, ok_env, ok_env, ok_env) example_complaints_store initial_admin_ui))
     \<noteq> map (\<lambda>c. if complaint.id c = ''k1''
                   then c\<lparr>complaint.status := Some ''resolved'',
                          complaint.admin_response := Some ''Fixed''\<rparr>
                   else c) (store.complaints example_complaints_store)"
proof -
  have a: "map complaint.updated_at (store.complaints example_complaints_store)
     = [Some 3, Some 5, Some 4]"
    by (simp add: example_complaints_store_def example_complaint_def)
  have b: "map complaint.updated_at
     (store.complaints (snd (updateComplaintStatus ''k1'' ''resolved'' ''Fixed'' ok_env
        (ok_env, ok_env, ok_env, ok_env) example_complaints_store initial_admin_ui)))
     = [Some 9, Some 5, Some 4]"
    by code_simp
  have c: "map complaint.updated_at
     (map (\<lambda>c. if complaint.id c = ''k1''
                   then c\<lparr>complaint.status := Some ''resolved'',
                          complaint.admin_response := Some ''Fixed''\<rparr>
                   else c) (store.complaints example_complaints_store))
     = [Some 3, Some 5, Some 4]"
    by (simp add: example_complaints_store_def example_complaint_def)
  have d: "store.complaints (snd (updateComplaintStatus ''k1'' ''resolved'' ''Fixed'' ok_env
        (ok_env, ok_env, ok_env, ok_env) example_complaints_store initial_admin_ui))
     \<noteq> map (\<lambda>c. if complaint.id c = ''k1''
                   then c\<lparr>complaint.status := Some ''resolved'',
                          complaint.admin_response := Some ''Fixed''\<rparr>
                   else c) (store.complaints example_complaints_store)"
  proof
    assume "store.complaints (snd (updateComplaintStatus ''k1'' ''resolved'' ''Fixed'' ok_env
        (ok_env, ok_env, ok_env, ok_env) example_complaints_store initial_admin_ui))
     = map (\<lambda>c. if complaint.id c = ''k1''
                   then c\<lparr>complaint.status := Some ''resolved'',
                          complaint.admin_response := Some ''Fixed''\<rparr>
                   else c) (store.complaints example_complaints_store)"
    then have "[Some 9, Some 5, Some 4] = [Some (3::nat), Some 5, Some 4]"
      using b c by (simp only:)
    then show False by simp
  qed
  from a b d show ?thesis by (intro conjI)
qed

end
